theory Spec2Isabelle
  imports Complex_Main
begin

section \<open>Tensor elements\<close>

text \<open>
  A tensor element of \<^verbatim>\<open>per_dqn_model.py\<close> is a floating-point number. The
  model keeps the two things the training step can observe about it: a finite number,
  carried as a real (rounding and overflow are left out), and the three special values
  that arithmetic propagates: the two infinities and not-a-number. The operations below
  follow the IEEE rules for the special values and are exact on finite numbers. Where a
  statement below rests on that exactness it says so; the others speak of the structure
  of the computation or admit the special values in their conclusion.
\<close>

datatype fl = Fin real | PInf | NInf | NaN

fun is_finite :: "fl \<Rightarrow> bool" where
  "is_finite (Fin a) = True"
| "is_finite PInf = False"
| "is_finite NInf = False"
| "is_finite NaN = False"

fun fneg :: "fl \<Rightarrow> fl" where
  "fneg (Fin a) = Fin (- a)"
| "fneg PInf = NInf"
| "fneg NInf = PInf"
| "fneg NaN = NaN"

fun fadd :: "fl \<Rightarrow> fl \<Rightarrow> fl" where
  "fadd (Fin a) (Fin b) = Fin (a + b)"
| "fadd (Fin a) PInf = PInf"
| "fadd (Fin a) NInf = NInf"
| "fadd PInf (Fin b) = PInf"
| "fadd PInf PInf = PInf"
| "fadd PInf NInf = NaN"
| "fadd NInf (Fin b) = NInf"
| "fadd NInf NInf = NInf"
| "fadd NInf PInf = NaN"
| "fadd NaN y = NaN"
| "fadd x NaN = NaN"

definition fsub :: "fl \<Rightarrow> fl \<Rightarrow> fl" where
  "fsub x y = fadd x (fneg y)"

definition inf_of_sign :: "real \<Rightarrow> fl" where
  \<comment> \<open>an infinity times a finite factor: zero gives NaN, otherwise the sign decides\<close>
  "inf_of_sign a = (if a = 0 then NaN else if 0 < a then PInf else NInf)"

fun fmul :: "fl \<Rightarrow> fl \<Rightarrow> fl" where
  "fmul (Fin a) (Fin b) = Fin (a * b)"
| "fmul (Fin a) PInf = inf_of_sign a"
| "fmul (Fin a) NInf = inf_of_sign (- a)"
| "fmul PInf (Fin b) = inf_of_sign b"
| "fmul NInf (Fin b) = inf_of_sign (- b)"
| "fmul PInf PInf = PInf"
| "fmul PInf NInf = NInf"
| "fmul NInf PInf = NInf"
| "fmul NInf NInf = PInf"
| "fmul NaN y = NaN"
| "fmul x NaN = NaN"

definition fsquare :: "fl \<Rightarrow> fl" where
  \<comment> \<open>\<^verbatim>\<open>x ** 2\<close>\<close>
  "fsquare x = fmul x x"

fun fmax :: "fl \<Rightarrow> fl \<Rightarrow> fl" where
  \<comment> \<open>the maximum of torch: a NaN operand gives NaN\<close>
  "fmax (Fin a) (Fin b) = Fin (max a b)"
| "fmax NaN y = NaN"
| "fmax x NaN = NaN"
| "fmax PInf y = PInf"
| "fmax x PInf = PInf"
| "fmax NInf y = y"
| "fmax x NInf = x"

fun fle :: "fl \<Rightarrow> fl \<Rightarrow> bool" where
  \<comment> \<open>\<^verbatim>\<open>x <= y\<close>: every comparison with NaN is false\<close>
  "fle (Fin a) (Fin b) = (a \<le> b)"
| "fle NaN y = False"
| "fle x NaN = False"
| "fle NInf y = True"
| "fle x PInf = True"
| "fle PInf y = False"
| "fle x NInf = False"

fun flt :: "fl \<Rightarrow> fl \<Rightarrow> bool" where
  \<comment> \<open>\<^verbatim>\<open>x < y\<close>\<close>
  "flt (Fin a) (Fin b) = (a < b)"
| "flt NaN y = False"
| "flt x NaN = False"
| "flt PInf y = False"
| "flt x NInf = False"
| "flt NInf y = True"
| "flt x PInf = True"

definition fsum :: "fl list \<Rightarrow> fl" where
  \<comment> \<open>\<^verbatim>\<open>t.sum()\<close>, from zero\<close>
  "fsum xs = foldr fadd xs (Fin 0)"

definition fmean :: "fl list \<Rightarrow> fl" where
  \<comment> \<open>\<^verbatim>\<open>t.mean()\<close>: the sum over the number of elements; NaN for the empty tensor\<close>
  "fmean xs =
     (if xs = [] then NaN
      else case fsum xs of
             Fin a \<Rightarrow> Fin (a / real (length xs))
           | PInf \<Rightarrow> PInf
           | NInf \<Rightarrow> NInf
           | NaN \<Rightarrow> NaN)"

section \<open>Tensor operations that can raise\<close>

datatype error = IndexOutOfBounds | EmptyReduction | ShapeMismatch | ZeroDivisionError

fun collect :: "(error + 'a) list \<Rightarrow> error + 'a list" where
  \<comment> \<open>the rows of a result, or the first error raised while computing them\<close>
  "collect [] = Inr []"
| "collect (Inl e # rs) = Inl e"
| "collect (Inr v # rs) = (case collect rs of Inl e \<Rightarrow> Inl e | Inr vs \<Rightarrow> Inr (v # vs))"

definition gather_row :: "fl list \<Rightarrow> int \<Rightarrow> error + fl" where
  \<comment> \<open>one row of \<^verbatim>\<open>t.gather(1, index)\<close>: the index must lie inside the row\<close>
  "gather_row row a =
     (if 0 \<le> a \<and> a < int (length row) then Inr (row ! nat a) else Inl IndexOutOfBounds)"

definition max_row :: "fl list \<Rightarrow> error + fl" where
  \<comment> \<open>one row of \<^verbatim>\<open>t.max(1)[0]\<close>: the reduction of an empty row raises\<close>
  "max_row row = (case row of [] \<Rightarrow> Inl EmptyReduction | x # xs \<Rightarrow> Inr (foldl fmax x xs))"

definition masked_zero :: "fl list \<Rightarrow> bool list \<Rightarrow> fl list" where
  \<comment> \<open>\<^verbatim>\<open>t[mask] = 0.0\<close>\<close>
  "masked_zero vals flags = map2 (\<lambda>v d. if d then Fin 0 else v) vals flags"

definition broadcast_mul :: "fl list \<Rightarrow> fl list \<Rightarrow> error + fl list" where
  \<comment> \<open>\<^verbatim>\<open>a * b\<close> on one-dimensional tensors: elementwise on equal lengths, a tensor of
      length one is stretched, any other pair of lengths raises\<close>
  "broadcast_mul xs ys =
     (if length xs = length ys then Inr (map2 fmul xs ys)
      else if length xs = 1 then Inr (map (fmul (hd xs)) ys)
      else if length ys = 1 then Inr (map (\<lambda>x. fmul x (hd ys)) xs)
      else Inl ShapeMismatch)"

section \<open>The loss of \<^verbatim>\<open>PERDQN\<close>\<close>

text \<open>
  A minibatch is a list of sampled transitions: the five tensors \<^verbatim>\<open>states, actions,
  rewards, dones, next_states\<close> of the source are the columns of this list, parallel by
  construction. The network is a collaborator that is not part of the source file: its
  forward pass is a parameter \<open>fwd\<close> that maps a parameter set and a state to the row of
  action values. The discount \<^verbatim>\<open>gamma\<close> is a hyperparameter, a finite number.
\<close>

record 'st transition =
  state :: 'st
  action :: int
  reward :: fl
  done_flag :: bool
  next_state :: 'st

definition state_action_vals ::
  "('p \<Rightarrow> 'st \<Rightarrow> fl list) \<Rightarrow> 'p \<Rightarrow> 'st transition list \<Rightarrow> error + fl list" where
  \<comment> \<open>\<^verbatim>\<open>self.net(states).gather(1, actions.unsqueeze(-1)).squeeze(-1)\<close>\<close>
  "state_action_vals fwd net batch =
     collect (map (\<lambda>t. gather_row (fwd net (state t)) (action t)) batch)"

definition next_s_vals ::
  "('p \<Rightarrow> 'st \<Rightarrow> fl list) \<Rightarrow> 'p \<Rightarrow> 'st transition list \<Rightarrow> error + fl list" where
  \<comment> \<open>\<^verbatim>\<open>self.target_net(next_states).max(1)[0]\<close>, then \<^verbatim>\<open>next_s_vals[dones] = 0.0\<close>\<close>
  "next_s_vals fwd target_net batch =
     (case collect (map (\<lambda>t. max_row (fwd target_net (next_state t))) batch) of
        Inl e \<Rightarrow> Inl e
      | Inr vals \<Rightarrow> Inr (masked_zero vals (map done_flag batch)))"

definition exp_sa_vals ::
  "('p \<Rightarrow> 'st \<Rightarrow> fl list) \<Rightarrow> 'p \<Rightarrow> real \<Rightarrow> 'st transition list \<Rightarrow> error + fl list" where
  \<comment> \<open>\<^verbatim>\<open>next_s_vals.detach() * self.gamma + rewards\<close>\<close>
  "exp_sa_vals fwd target_net gamma batch =
     (case next_s_vals fwd target_net batch of
        Inl e \<Rightarrow> Inl e
      | Inr vals \<Rightarrow> Inr (map2 (\<lambda>v r. fadd (fmul v (Fin gamma)) r) vals (map reward batch)))"

definition loss ::
  "('p \<Rightarrow> 'st \<Rightarrow> fl list) \<Rightarrow> 'p \<Rightarrow> 'p \<Rightarrow> real \<Rightarrow> 'st transition list \<Rightarrow> fl list
     \<Rightarrow> error + (fl \<times> fl list)" where
  "loss fwd net target_net gamma batch batch_weights =
     (case state_action_vals fwd net batch of
        Inl e \<Rightarrow> Inl e
      | Inr q_vals \<Rightarrow>
          (case exp_sa_vals fwd target_net gamma batch of
             Inl e \<Rightarrow> Inl e
           | Inr targets \<Rightarrow>
               (case broadcast_mul batch_weights
                       (map2 (\<lambda>q t. fsquare (fsub q t)) q_vals targets) of
                  Inl e \<Rightarrow> Inl e
                | Inr losses_v \<Rightarrow>
                    Inr (fmean losses_v, map (\<lambda>l. fadd l (Fin (1 / 100000))) losses_v))))"

section \<open>The training step of \<^verbatim>\<open>PERDQN\<close>\<close>

text \<open>
  \<^verbatim>\<open>training_step\<close> works on the fields of the model object and on four
  collaborators whose code is not part of the source file: the network (its forward
  pass), the agent with the experience source and its environment (one opaque state
  \<open>'w\<close>), the prioritized buffer (an opaque state \<open>'b\<close>) and the trainer. Their
  operations are parameters of the model, so every theorem below holds for any
  implementation of them.
\<close>

record ('p, 'st, 'w, 'b, 'e) collaborators =
  forward :: "'p \<Rightarrow> 'st \<Rightarrow> fl list"
  update_epsilon :: "'w \<Rightarrow> int \<Rightarrow> 'w"
  source_step :: "'p \<Rightarrow> 'w \<Rightarrow> ('e \<times> real \<times> bool) \<times> 'w"
  agent_epsilon :: "'w \<Rightarrow> real"
  buffer_append :: "'b \<Rightarrow> 'e \<Rightarrow> 'b"
  update_priorities :: "'b \<Rightarrow> int list \<Rightarrow> fl list \<Rightarrow> 'b"

record trainer =
  global_step :: int
  use_dp :: bool
  use_ddp2 :: bool

record ('p, 'w, 'b) perdqn =
  net :: 'p
  target_net :: 'p
  world :: 'w
  buffer :: 'b
  gamma :: real
  sync_rate :: int
  total_reward :: real
  episode_reward :: real
  avg_reward :: real
  reward_list :: "real list"
  episode_count :: int
  episode_steps :: int
  total_episode_steps :: int

datatype loss_tensor = Scalar fl | Unsqueezed fl

record log_dict =
  log_total_reward :: real
  log_avg_reward :: real
  log_train_loss :: loss_tensor
  log_episode_steps :: int

record status_dict =
  status_steps :: int
  status_avg_reward :: real
  status_total_reward :: real
  status_episodes :: int
  status_episode_steps :: int
  status_epsilon :: real

record step_output =
  out_loss :: loss_tensor
  out_log :: log_dict
  out_progress_bar :: status_dict

definition last_100 :: "'a list \<Rightarrow> 'a list" where
  \<comment> \<open>\<^verbatim>\<open>xs[-100:]\<close>: the last hundred elements, or all of them when there are fewer\<close>
  "last_100 xs = drop (length xs - 100) xs"

definition finalize_episode :: "('p, 'w, 'b) perdqn \<Rightarrow> ('p, 'w, 'b) perdqn" where
  \<comment> \<open>the body of \<^verbatim>\<open>if done:\<close>, one update for each assignment, in the source's order\<close>
  "finalize_episode s0 =
     (let s1 = s0\<lparr>total_reward := episode_reward s0\<rparr>;
          s2 = s1\<lparr>reward_list := reward_list s1 @ [total_reward s1]\<rparr>;
          s3 = s2\<lparr>avg_reward := sum_list (last_100 (reward_list s2)) / 100\<rparr>;
          s4 = s3\<lparr>episode_count := episode_count s3 + 1\<rparr>;
          s5 = s4\<lparr>episode_reward := 0\<rparr>;
          s6 = s5\<lparr>total_episode_steps := episode_steps s5\<rparr>
      in s6\<lparr>episode_steps := 0\<rparr>)"

definition sync_target ::
  "trainer \<Rightarrow> ('p, 'w, 'b) perdqn \<Rightarrow> error + ('p, 'w, 'b) perdqn" where
  \<comment> \<open>\<^verbatim>\<open>if self.global_step % self.sync_rate == 0:
        self.target_net.load_state_dict(self.net.state_dict())\<close>;
      the remainder by zero raises\<close>
  "sync_target tr s =
     (if sync_rate s = 0 then Inl ZeroDivisionError
      else if global_step tr mod sync_rate s = 0 then Inr (s\<lparr>target_net := net s\<rparr>)
      else Inr s)"

definition make_output ::
  "('p, 'st, 'w, 'b, 'e) collaborators \<Rightarrow> trainer \<Rightarrow> loss_tensor \<Rightarrow> ('p, 'w, 'b) perdqn
     \<Rightarrow> step_output" where
  "make_output C tr loss_t s =
     \<lparr>out_loss = loss_t,
      out_log = \<lparr>log_total_reward = total_reward s,
                 log_avg_reward = avg_reward s,
                 log_train_loss = loss_t,
                 log_episode_steps = total_episode_steps s\<rparr>,
      out_progress_bar = \<lparr>status_steps = global_step tr,
                          status_avg_reward = avg_reward s,
                          status_total_reward = total_reward s,
                          status_episodes = episode_count s,
                          status_episode_steps = episode_steps s,
                          status_epsilon = agent_epsilon C (world s)\<rparr>\<rparr>"

definition training_step ::
  "('p, 'st, 'w, 'b, 'e) collaborators \<Rightarrow> trainer \<Rightarrow> ('p, 'w, 'b) perdqn
     \<Rightarrow> 'st transition list \<times> int list \<times> fl list
     \<Rightarrow> error + (step_output \<times> ('p, 'w, 'b) perdqn)" where
  "training_step C tr self batch =
     (case batch of (samples, indices, weights) \<Rightarrow>
        (case source_step C (net self) (update_epsilon C (world self) (global_step tr)) of
           ((experience, step_reward, step_done), w) \<Rightarrow>
             let s1 = self\<lparr>world := w\<rparr>;
                 s2 = s1\<lparr>buffer := buffer_append C (buffer s1) experience\<rparr>;
                 s3 = s2\<lparr>episode_reward := episode_reward s2 + step_reward\<rparr>;
                 s4 = s3\<lparr>episode_steps := episode_steps s3 + 1\<rparr>
             in (case loss (forward C) (net s4) (target_net s4) (gamma s4) samples weights of
                   Inl err \<Rightarrow> Inl err
                 | Inr (loss_v, batch_weights) \<Rightarrow>
                     let s5 = s4\<lparr>buffer := update_priorities C (buffer s4) indices batch_weights\<rparr>;
                         loss_t = (if use_dp tr \<or> use_ddp2 tr then Unsqueezed loss_v
                                   else Scalar loss_v);
                         s6 = (if step_done then finalize_episode s5 else s5)
                     in (case sync_target tr s6 of
                           Inl err \<Rightarrow> Inl err
                         | Inr s7 \<Rightarrow> Inr (make_output C tr loss_t s7, s7)))))"

section \<open>A concrete set of collaborators\<close>

text \<open>
  For evaluating the training step on concrete inputs: a network whose parameter set is
  the table of its action values, an environment that yields the transition held in its
  state, and a buffer that records the calls it receives.
\<close>

datatype 'e buffer_call = Append 'e | UpdatePriorities "int list" "fl list"

definition recording ::
  "(nat \<Rightarrow> fl list, nat, (nat \<times> real \<times> bool), nat buffer_call list, nat) collaborators" where
  "recording =
     \<lparr>forward = (\<lambda>p st. p st),
      update_epsilon = (\<lambda>w g. w),
      source_step = (\<lambda>p w. (w, w)),
      agent_epsilon = (\<lambda>w. 1 / 100),
      buffer_append = (\<lambda>b e. b @ [Append e]),
      update_priorities = (\<lambda>b ix ps. b @ [UpdatePriorities ix ps])\<rparr>"

definition fresh_model ::
  "(nat \<Rightarrow> fl list) \<Rightarrow> (nat \<Rightarrow> fl list) \<Rightarrow> (nat \<times> real \<times> bool) \<Rightarrow> int
     \<Rightarrow> (nat \<Rightarrow> fl list, (nat \<times> real \<times> bool), nat buffer_call list) perdqn" where
  \<comment> \<open>Modelled from the spec: the fields of the model object before the first training
      step (the constructor is not part of the source file): no completed episode, empty
      reward history, all counters at zero. The discount is fixed at one half.\<close>
  "fresh_model online target env k =
     \<lparr>net = online, target_net = target, world = env, buffer = [],
      gamma = 1 / 2, sync_rate = k,
      total_reward = 0, episode_reward = 0, avg_reward = 0, reward_list = [],
      episode_count = 0, episode_steps = 0, total_episode_steps = 0\<rparr>"

definition demo_online :: "nat \<Rightarrow> fl list" where
  "demo_online st = [Fin 1, Fin 2]"

definition demo_target :: "nat \<Rightarrow> fl list" where
  "demo_target st = [Fin 3, Fin 5]"

definition diverged_online :: "nat \<Rightarrow> fl list" where
  \<comment> \<open>an online network one of whose action values has become NaN\<close>
  "diverged_online st = [Fin 1, NaN]"

definition overflowed_target :: "nat \<Rightarrow> fl list" where
  \<comment> \<open>a target network one of whose action values has become infinite\<close>
  "overflowed_target st = [Fin 3, PInf]"

definition demo_samples :: "nat transition list" where
  "demo_samples =
     [\<lparr>state = 0, action = 1, reward = Fin 1, done_flag = False, next_state = 1\<rparr>,
      \<lparr>state = 1, action = 0, reward = Fin 2, done_flag = True, next_state = 2\<rparr>,
      \<lparr>state = 2, action = 0, reward = Fin 0, done_flag = False, next_state = 0\<rparr>]"

definition demo_indices :: "int list" where
  "demo_indices = [4, 0, 9]"

definition demo_weights :: "fl list" where
  "demo_weights = [Fin 1, Fin (1 / 2), Fin 2]"

definition demo_trainer :: "int \<Rightarrow> trainer" where
  "demo_trainer g = \<lparr>global_step = g, use_dp = False, use_ddp2 = False\<rparr>"

definition demo_priorities :: "fl list" where
  "demo_priorities = [Fin (225001 / 100000), Fin (50001 / 100000), Fin (450001 / 100000)]"

definition demo_model ::
  "bool \<Rightarrow> (nat \<Rightarrow> fl list, (nat \<times> real \<times> bool), nat buffer_call list) perdqn" where
  \<comment> \<open>a fresh model whose environment yields experience 7 with reward 3 and the given
      done flag; the target network is synchronised every second step\<close>
  "demo_model d = fresh_model demo_online demo_target (7, 3, d) 2"

definition diverged_model ::
  "(nat \<Rightarrow> fl list, (nat \<times> real \<times> bool), nat buffer_call list) perdqn" where
  "diverged_model = fresh_model diverged_online overflowed_target (7, 3, False) 2"

definition demo_buffer :: "nat buffer_call list" where
  \<comment> \<open>the calls an empty recording buffer has received after one training step\<close>
  "demo_buffer = [Append 7, UpdatePriorities demo_indices demo_priorities]"

definition demo_after ::
  "(nat \<Rightarrow> fl list, (nat \<times> real \<times> bool), nat buffer_call list) perdqn" where
  \<comment> \<open>\<open>demo_model False\<close> after one training step without synchronisation\<close>
  "demo_after = (demo_model False)\<lparr>episode_reward := 3, episode_steps := 1, buffer := demo_buffer\<rparr>"

definition demo_after_episode ::
  "real \<Rightarrow> (nat \<Rightarrow> fl list, (nat \<times> real \<times> bool), nat buffer_call list) perdqn" where
  \<comment> \<open>\<open>demo_model True\<close> after the one-step training step that completes its first
      episode with the given accumulated reward, without synchronisation\<close>
  "demo_after_episode acc =
     (demo_model True)\<lparr>buffer := demo_buffer, total_reward := acc, reward_list := [acc],
                        avg_reward := acc / 100, episode_count := 1,
                        total_episode_steps := 1\<rparr>"

definition prefilled_model ::
  "(nat \<Rightarrow> fl list, (nat \<times> real \<times> bool), nat buffer_call list) perdqn" where
  \<comment> \<open>a model object whose reward history already holds a hundred entries while no
      episode has completed, two units of reward into its first episode; the environment
      yields reward 3 with the done flag set\<close>
  "prefilled_model =
     (demo_model True)\<lparr>reward_list := replicate 100 (- 21), episode_reward := 2\<rparr>"

definition prefilled_after ::
  "(nat \<Rightarrow> fl list, (nat \<times> real \<times> bool), nat buffer_call list) perdqn" where
  \<comment> \<open>\<open>prefilled_model\<close> after the training step that completes its first episode\<close>
  "prefilled_after =
     prefilled_model\<lparr>buffer := demo_buffer, total_reward := 5,
                      reward_list := replicate 100 (- 21) @ [5],
                      avg_reward := - 2074 / 100, episode_count := 1,
                      episode_reward := 0, total_episode_steps := 1\<rparr>"

section \<open>Reading finite elements\<close>

fun fl_real :: "fl \<Rightarrow> real" where
  \<comment> \<open>the number carried by a finite element (only read under \<open>is_finite\<close>)\<close>
  "fl_real (Fin a) = a"
| "fl_real PInf = 0"
| "fl_real NInf = 0"
| "fl_real NaN = 0"

section \<open>Lemmas on the tensor operations\<close>

lemma collect_length: "collect rs = Inr vs \<Longrightarrow> length vs = length rs"
proof (induction rs arbitrary: vs rule: collect.induct)
  case 1
  then show ?case by simp
next
  case (2 e rs)
  then show ?case by simp
next
  case (3 v rs)
  then show ?case by (auto split: sum.splits)
qed

lemma collect_nth: "collect rs = Inr vs \<Longrightarrow> i < length rs \<Longrightarrow> rs ! i = Inr (vs ! i)"
proof (induction rs arbitrary: vs i rule: collect.induct)
  case 1
  then show ?case by simp
next
  case (2 e rs)
  then show ?case by simp
next
  case (3 v rs)
  then show ?case by (cases i) (auto split: sum.splits)
qed

lemma collect_returns:
  "list_all (\<lambda>r. \<exists>v. r = Inr v) rs \<Longrightarrow> \<exists>vs. collect rs = Inr vs"
proof (induction rs)
  case Nil
  then show ?case by simp
next
  case (Cons r rs)
  then obtain v vs where "r = Inr v" "collect rs = Inr vs" by auto
  then show ?case by simp
qed

lemma fadd_zero_left: "fadd (Fin 0) r = r"
  by (cases r) auto

lemma map2_by_index:
  "length xs = n \<Longrightarrow> length ys = n \<Longrightarrow>
     map2 f xs ys = map (\<lambda>i. f (xs ! i) (ys ! i)) [0..<n]"
  by (auto intro: nth_equalityI)

lemma fsum_Fin: "fsum (map Fin xs) = Fin (sum_list xs)"
  by (induction xs) (simp_all add: fsum_def)

lemma fmean_Fin: "xs \<noteq> [] \<Longrightarrow> fmean (map Fin xs) = Fin (sum_list xs / real (length xs))"
  by (simp add: fmean_def fsum_Fin)

lemma is_finite_iff: "is_finite x \<longleftrightarrow> (\<exists>a. x = Fin a)"
  by (cases x) auto

section \<open>Lemmas on the loss\<close>

lemma next_s_vals_length: "next_s_vals fwd tn batch = Inr nv \<Longrightarrow> length nv = length batch"
  by (auto simp: next_s_vals_def masked_zero_def dest: collect_length split: sum.splits)

lemma next_s_vals_done:
  assumes "next_s_vals fwd tn batch = Inr nv" and "i < length batch" and "done_flag (batch ! i)"
  shows "nv ! i = Fin 0"
proof -
  obtain vals where c: "collect (map (\<lambda>t. max_row (fwd tn (next_state t))) batch) = Inr vals"
    and nv: "nv = masked_zero vals (map done_flag batch)"
    using assms(1) by (auto simp: next_s_vals_def split: sum.splits)
  have "length vals = length batch" using collect_length [OF c] by simp
  then show ?thesis using assms(2,3) by (simp add: nv masked_zero_def)
qed

lemma state_action_vals_length:
  "state_action_vals fwd n batch = Inr qp \<Longrightarrow> length qp = length batch"
  by (auto simp: state_action_vals_def dest: collect_length)

lemma exp_sa_vals_length:
  "exp_sa_vals fwd tn g batch = Inr qt \<Longrightarrow> length qt = length batch"
  by (auto simp: exp_sa_vals_def dest: next_s_vals_length split: sum.splits)

lemma loss_by_index:
  assumes qp: "state_action_vals fwd n batch = Inr qp"
    and qt: "exp_sa_vals fwd tn g batch = Inr qt"
    and len: "length ws = length batch"
  shows "loss fwd n tn g batch ws =
           Inr (fmean (map (\<lambda>i. fmul (ws ! i) (fsquare (fsub (qp ! i) (qt ! i)))) [0..<length batch]),
                map (\<lambda>i. fadd (fmul (ws ! i) (fsquare (fsub (qp ! i) (qt ! i)))) (Fin (1 / 100000)))
                  [0..<length batch])"
proof -
  let ?n = "length batch"
  have lp: "length qp = ?n" using state_action_vals_length [OF qp] .
  have lt: "length qt = ?n" using exp_sa_vals_length [OF qt] .
  have sq: "map2 (\<lambda>q t. fsquare (fsub q t)) qp qt
              = map (\<lambda>i. fsquare (fsub (qp ! i) (qt ! i))) [0..<?n]"
    using map2_by_index [OF lp lt] .
  have bm: "broadcast_mul ws (map (\<lambda>i. fsquare (fsub (qp ! i) (qt ! i))) [0..<?n])
              = Inr (map (\<lambda>i. fmul (ws ! i) (fsquare (fsub (qp ! i) (qt ! i)))) [0..<?n])"
    using len by (auto simp: broadcast_mul_def intro: nth_equalityI)
  show ?thesis
    by (simp add: loss_def qp qt sq bm comp_def)
qed

lemma loss_returns:
  assumes acts: "list_all (\<lambda>t. 0 \<le> action t \<and> action t < int (length (fwd online (state t)))) batch"
    and rows: "list_all (\<lambda>t. fwd target (next_state t) \<noteq> []) batch"
    and len: "length ws = length batch"
  shows "\<exists>l ps. loss fwd online target g batch ws = Inr (l, ps)"
proof -
  have "list_all (\<lambda>r. \<exists>v. r = Inr v)
          (map (\<lambda>t. gather_row (fwd online (state t)) (action t)) batch)"
    using acts by (simp add: list_all_iff gather_row_def)
  then obtain qp where qp: "state_action_vals fwd online batch = Inr qp"
    unfolding state_action_vals_def using collect_returns by blast
  have "list_all (\<lambda>r. \<exists>v. r = Inr v) (map (\<lambda>t. max_row (fwd target (next_state t))) batch)"
    using rows by (auto simp: list_all_iff max_row_def split: list.splits)
  then obtain vals where "collect (map (\<lambda>t. max_row (fwd target (next_state t))) batch) = Inr vals"
    using collect_returns by blast
  then obtain qt where qt: "exp_sa_vals fwd target g batch = Inr qt"
    by (simp add: exp_sa_vals_def next_s_vals_def)
  show ?thesis using loss_by_index [OF qp qt len] by blast
qed

lemma fsquare_range: "fsquare x = NaN \<or> fsquare x = PInf \<or> (\<exists>b\<ge>0. fsquare x = Fin b)"
  by (cases x) (simp_all add: fsquare_def)

lemma weighted_square_plus_floor:
  assumes w: "fle (Fin 0) w"
  shows "fadd (fmul w (fsquare x)) (Fin (1 / 100000)) = NaN
       \<or> flt (Fin 0) (fadd (fmul w (fsquare x)) (Fin (1 / 100000)))"
proof -
  consider a where "w = Fin a" "0 \<le> a" | "w = PInf"
    using w by (cases w) simp_all
  then show ?thesis
  proof cases
    case 1
    from fsquare_range [of x] show ?thesis
    proof (elim disjE exE conjE)
      assume "fsquare x = NaN"
      then show ?thesis by (simp add: 1)
    next
      assume "fsquare x = PInf"
      then show ?thesis using 1(2) by (simp add: 1(1) inf_of_sign_def)
    next
      fix b :: real assume b: "0 \<le> b" "fsquare x = Fin b"
      have "0 \<le> a * b" using 1(2) b(1) by simp
      then have "0 < a * b + 1 / 100000" by linarith
      then show ?thesis by (simp add: 1 b)
    qed
  next
    case 2
    from fsquare_range [of x] show ?thesis
    proof (elim disjE exE conjE)
      assume "fsquare x = NaN"
      then show ?thesis by (simp add: 2)
    next
      assume "fsquare x = PInf"
      then show ?thesis by (simp add: 2)
    next
      fix b :: real assume b: "0 \<le> b" "fsquare x = Fin b"
      then show ?thesis by (simp add: 2 inf_of_sign_def)
    qed
  qed
qed

lemma broadcast_mul_elements:
  assumes "broadcast_mul xs ys = Inr zs" and "z \<in> set zs"
  shows "\<exists>x\<in>set xs. \<exists>y\<in>set ys. z = fmul x y"
proof -
  consider (eq) "length xs = length ys" "zs = map2 fmul xs ys"
    | (left) "length xs = 1" "zs = map (fmul (hd xs)) ys"
    | (right) "length ys = 1" "zs = map (\<lambda>x. fmul x (hd ys)) xs"
    using assms(1) by (auto simp: broadcast_mul_def split: if_splits)
  then show ?thesis
  proof cases
    case eq
    then obtain a b where ab: "(a, b) \<in> set (zip xs ys)" "z = fmul a b"
      using assms(2) by auto
    have "a \<in> set xs" "b \<in> set ys"
      using ab(1) by (rule set_zip_leftD, rule set_zip_rightD)
    then show ?thesis using ab(2) by blast
  next
    case left
    then have "hd xs \<in> set xs" by (cases xs) auto
    then show ?thesis using left assms(2) by auto
  next
    case right
    then have "hd ys \<in> set ys" by (cases ys) auto
    then show ?thesis using right assms(2) by auto
  qed
qed

lemma loss_priorities_positive_or_nan:
  assumes ls: "loss fwd online target g batch ws = Inr (l, ps)"
    and nonneg: "list_all (fle (Fin 0)) ws"
  shows "list_all (\<lambda>p. p = NaN \<or> flt (Fin 0) p) ps"
proof -
  obtain qp qt losses_v where
    bm: "broadcast_mul ws (map2 (\<lambda>q t. fsquare (fsub q t)) qp qt) = Inr losses_v"
    and ps: "ps = map (\<lambda>l. fadd l (Fin (1 / 100000))) losses_v"
    using ls by (auto simp: loss_def split: sum.splits)
  have "p = NaN \<or> flt (Fin 0) p" if p: "p \<in> set ps" for p
  proof -
    obtain z where z: "z \<in> set losses_v" "p = fadd z (Fin (1 / 100000))"
      using p ps by auto
    obtain w y where wy: "w \<in> set ws" "y \<in> set (map2 (\<lambda>q t. fsquare (fsub q t)) qp qt)"
      "z = fmul w y"
      using broadcast_mul_elements [OF bm z(1)] by blast
    obtain x where x: "y = fsquare x" using wy(2) by auto
    have "fle (Fin 0) w" using nonneg wy(1) by (simp add: list_all_iff)
    from weighted_square_plus_floor [OF this, of x] show ?thesis
      by (simp add: z(2) wy(3) x)
  qed
  then show ?thesis by (simp add: list_all_iff)
qed

section \<open>Lemmas on the training step\<close>

lemma source_step_cases:
  obtains e r d w where
    "source_step C p x = ((e, r, d), w)"
proof -
  obtain y w where yw: "source_step C p x = (y, w)" by (cases "source_step C p x")
  obtain e r d where "y = (e, r, d)" by (cases y)
  with yw that show ?thesis by simp
qed

lemma training_step_unfold:
  assumes src: "source_step C (net self) (update_epsilon C (world self) (global_step tr))
                  = ((e, r, d), w)"
    and ls: "loss (forward C) (net self) (target_net self) (gamma self) samples weights
               = Inr (l, ps)"
  shows "training_step C tr self (samples, indices, weights) =
           (case sync_target tr
                   ((if d then finalize_episode else id)
                      (self\<lparr>world := w,
                            episode_reward := episode_reward self + r,
                            episode_steps := episode_steps self + 1,
                            buffer := update_priorities C (buffer_append C (buffer self) e) indices ps\<rparr>)) of
              Inl err \<Rightarrow> Inl err
            | Inr s7 \<Rightarrow>
                Inr (make_output C tr (if use_dp tr \<or> use_ddp2 tr then Unsqueezed l else Scalar l) s7,
                     s7))"
  by (simp add: training_step_def src ls Let_def)

lemma training_step_returns:
  assumes ls: "loss (forward C) (net self) (target_net self) (gamma self) samples weights
               = Inr (l, ps)"
    and k: "sync_rate self \<noteq> 0"
  shows "\<exists>res s'. training_step C tr self (samples, indices, weights) = Inr (res, s')"
proof -
  obtain x w where xw: "source_step C (net self) (update_epsilon C (world self) (global_step tr)) = (x, w)"
    by (cases "source_step C (net self) (update_epsilon C (world self) (global_step tr))")
  obtain e r d where x: "x = (e, r, d)" by (cases x)
  have src: "source_step C (net self) (update_epsilon C (world self) (global_step tr)) = ((e, r, d), w)"
    using xw x by simp
  show ?thesis
    using k by (cases d) (simp_all add: training_step_unfold [OF src ls] sync_target_def finalize_episode_def Let_def)
qed

lemma training_step_state:
  assumes ts: "training_step C tr self (samples, indices, weights) = Inr (res, s')"
    and src: "source_step C (net self) (update_epsilon C (world self) (global_step tr))
                  = ((e, r, d), w)"
  shows "\<exists>l ps. loss (forward C) (net self) (target_net self) (gamma self) samples weights = Inr (l, ps)
         \<and> sync_target tr
             ((if d then finalize_episode else id)
                (self\<lparr>world := w,
                      episode_reward := episode_reward self + r,
                      episode_steps := episode_steps self + 1,
                      buffer := update_priorities C (buffer_append C (buffer self) e) indices ps\<rparr>))
             = Inr s'
         \<and> res = make_output C tr (if use_dp tr \<or> use_ddp2 tr then Unsqueezed l else Scalar l) s'"
proof (cases "loss (forward C) (net self) (target_net self) (gamma self) samples weights")
  case (Inl err)
  then show ?thesis using ts by (simp add: training_step_def src)
next
  case (Inr lp)
  obtain l ps where lp: "lp = (l, ps)" by (cases lp)
  have ls: "loss (forward C) (net self) (target_net self) (gamma self) samples weights = Inr (l, ps)"
    using Inr lp by simp
  define S where "S = (if d then finalize_episode else id)
                (self\<lparr>world := w,
                      episode_reward := episode_reward self + r,
                      episode_steps := episode_steps self + 1,
                      buffer := update_priorities C (buffer_append C (buffer self) e) indices ps\<rparr>)"
  define lt where "lt = (if use_dp tr \<or> use_ddp2 tr then Unsqueezed l else Scalar l)"
  have u: "training_step C tr self (samples, indices, weights) =
             (case sync_target tr S of Inl err \<Rightarrow> Inl err | Inr s7 \<Rightarrow> Inr (make_output C tr lt s7, s7))"
    unfolding S_def lt_def by (rule training_step_unfold [OF src ls])
  have "sync_target tr S = Inr s' \<and> res = make_output C tr lt s'"
    using ts unfolding u by (cases "sync_target tr S") auto
  then show ?thesis unfolding S_def lt_def using ls by blast
qed

lemma sync_target_Inr:
  "sync_target tr s = Inr s' \<longleftrightarrow>
     sync_rate s \<noteq> 0 \<and> s' = (if sync_rate s dvd global_step tr then s\<lparr>target_net := net s\<rparr> else s)"
  by (auto simp: sync_target_def dvd_eq_mod_eq_0)

lemma finalize_episode_frame [simp]:
  "net (finalize_episode s) = net s"
  "target_net (finalize_episode s) = target_net s"
  "sync_rate (finalize_episode s) = sync_rate s"
  "buffer (finalize_episode s) = buffer s"
  "world (finalize_episode s) = world s"
  "gamma (finalize_episode s) = gamma s"
  by (simp_all add: finalize_episode_def Let_def)

lemma finalize_episode_fields:
  "total_reward (finalize_episode s) = episode_reward s"
  "reward_list (finalize_episode s) = reward_list s @ [episode_reward s]"
  "avg_reward (finalize_episode s) = sum_list (last_100 (reward_list s @ [episode_reward s])) / 100"
  "episode_count (finalize_episode s) = episode_count s + 1"
  "total_episode_steps (finalize_episode s) = episode_steps s"
  "episode_reward (finalize_episode s) = 0"
  "episode_steps (finalize_episode s) = 0"
  by (simp_all add: finalize_episode_def Let_def)

lemma training_step_final_state:
  assumes ts: "training_step C tr self (samples, indices, weights) = Inr (res, s')"
    and src: "source_step C (net self) (update_epsilon C (world self) (global_step tr))
                  = ((e, r, d), w)"
  shows "\<exists>l ps S.
           loss (forward C) (net self) (target_net self) (gamma self) samples weights = Inr (l, ps)
         \<and> S = (if d then finalize_episode else id)
                 (self\<lparr>world := w,
                       episode_reward := episode_reward self + r,
                       episode_steps := episode_steps self + 1,
                       buffer := update_priorities C (buffer_append C (buffer self) e) indices ps\<rparr>)
         \<and> sync_rate self \<noteq> 0
         \<and> s' = (if sync_rate self dvd global_step tr then S\<lparr>target_net := net self\<rparr> else S)"
proof -
  obtain l ps where ls: "loss (forward C) (net self) (target_net self) (gamma self) samples weights = Inr (l, ps)"
    and sy: "sync_target tr
             ((if d then finalize_episode else id)
                (self\<lparr>world := w,
                      episode_reward := episode_reward self + r,
                      episode_steps := episode_steps self + 1,
                      buffer := update_priorities C (buffer_append C (buffer self) e) indices ps\<rparr>))
             = Inr s'"
    using training_step_state [OF ts src] by blast
  show ?thesis
    using ls sy by (cases d) (simp_all add: sync_target_Inr)
qed

lemma history_length_invariant:
  assumes ts: "training_step C tr self (samples, indices, weights) = Inr (res, s')"
    and inv: "int (length (reward_list self)) = episode_count self"
  shows "int (length (reward_list s')) = episode_count s'"
proof -
  obtain e r d w where src:
    "source_step C (net self) (update_epsilon C (world self) (global_step tr)) = ((e, r, d), w)"
    by (rule source_step_cases)
  show ?thesis
    using training_step_final_state [OF ts src] inv
    by (cases d) (auto simp: finalize_episode_fields)
qed

lemma fresh_model_history: "int (length (reward_list (fresh_model online target env k))) =
  episode_count (fresh_model online target env k)"
  by (simp add: fresh_model_def)

lemma sum_last_100_prefilled:
  "sum_list (last_100 (replicate 100 (- 21 :: real) @ [5])) = - 2074"
proof -
  have "last_100 (replicate 100 (- 21 :: real) @ [5]) = replicate 99 (- 21) @ [5]"
    by (simp add: last_100_def)
  then show ?thesis by (simp add: sum_list_replicate)
qed

lemmas eval_defs = training_step_def recording_def fresh_model_def loss_def state_action_vals_def
  exp_sa_vals_def next_s_vals_def gather_row_def max_row_def masked_zero_def broadcast_mul_def
  fmean_def fsum_def fsquare_def fsub_def sync_target_def finalize_episode_def make_output_def
  last_100_def Let_def demo_online_def demo_target_def demo_samples_def demo_indices_def
  demo_weights_def demo_trainer_def diverged_online_def overflowed_target_def inf_of_sign_def
  demo_priorities_def demo_model_def diverged_model_def demo_buffer_def demo_after_def
  demo_after_episode_def prefilled_model_def prefilled_after_def

section \<open>The claims on the loss\<close>

text \<open>
  C1. In \<^verbatim>\<open>loss\<close>, a batch row whose done flag is set has its next-state value
  overwritten with exactly 0, so the bootstrapped target of that row is its reward alone,
  for every discount \<open>g\<close>.
\<close>

theorem terminal_rows_target_is_reward:
  assumes nv: "next_s_vals fwd target batch = Inr nv"
    and ts: "exp_sa_vals fwd target g batch = Inr targets"
    and i: "i < length batch"
    and d: "done_flag (batch ! i)"
  shows "nv ! i = Fin 0 \<and> targets ! i = reward (batch ! i)"
proof -
  have z: "nv ! i = Fin 0" using next_s_vals_done [OF nv i d] .
  have len: "length nv = length batch" using next_s_vals_length [OF nv] .
  have "targets = map2 (\<lambda>v r. fadd (fmul v (Fin g)) r) nv (map reward batch)"
    using ts by (simp add: exp_sa_vals_def nv)
  then have "targets ! i = fadd (fmul (nv ! i) (Fin g)) (reward (batch ! i))"
    using len i by simp
  then show ?thesis by (simp add: z fadd_zero_left)
qed

theorem terminal_rows_target_is_reward_witness:
  "next_s_vals (forward recording) demo_target demo_samples = Inr [Fin 5, Fin 0, Fin 5]
   \<and> exp_sa_vals (forward recording) demo_target (1 / 2) demo_samples
        = Inr [Fin (7 / 2), Fin 2, Fin (5 / 2)]
   \<and> (1::nat) < length demo_samples
   \<and> done_flag (demo_samples ! 1)
   \<and> [Fin 5, Fin 0, Fin 5] ! 1 = Fin 0
   \<and> [Fin (7 / 2), Fin 2, Fin (5 / 2)] ! 1 = reward (demo_samples ! 1)"
proof -
  have nv: "next_s_vals (forward recording) demo_target demo_samples = Inr [Fin 5, Fin 0, Fin 5]"
    by (simp add: eval_defs)
  have ts: "exp_sa_vals (forward recording) demo_target (1 / 2) demo_samples
              = Inr [Fin (7 / 2), Fin 2, Fin (5 / 2)]"
    by (simp add: eval_defs)
  have i: "(1::nat) < length demo_samples" by (simp add: demo_samples_def)
  have d: "done_flag (demo_samples ! 1)" by (simp add: demo_samples_def)
  show ?thesis
    using nv ts i d terminal_rows_target_is_reward [OF nv ts i d] by simp
qed

text \<open>
  C2. The training loss that \<^verbatim>\<open>loss\<close> returns is the mean over the samples of
  \<open>weight\<^sub>i * (q_pred\<^sub>i - q_target\<^sub>i)\<^sup>2\<close>: the squared error scaled by the importance
  weight and averaged over the batch. The first conjunct states it in the arithmetic of
  tensor elements, the second in real arithmetic for a batch without special values.
\<close>

theorem loss_is_weighted_mean_squared_error:
  assumes qp: "state_action_vals fwd online batch = Inr qp"
    and qt: "exp_sa_vals fwd target g batch = Inr qt"
    and len: "length ws = length batch"
  shows "(\<exists>ps. loss fwd online target g batch ws =
            Inr (fmean (map (\<lambda>i. fmul (ws ! i) (fsquare (fsub (qp ! i) (qt ! i))))
                         [0..<length batch]), ps))
       \<and> (batch \<noteq> [] \<and> list_all is_finite ws \<and> list_all is_finite qp \<and> list_all is_finite qt
            \<longrightarrow> (\<exists>ps. loss fwd online target g batch ws =
                  Inr (Fin ((\<Sum>i<length batch.
                               fl_real (ws ! i) * (fl_real (qp ! i) - fl_real (qt ! i))\<^sup>2)
                            / real (length batch)), ps)))"
proof -
  let ?n = "length batch"
  let ?L = "map (\<lambda>i. fmul (ws ! i) (fsquare (fsub (qp ! i) (qt ! i)))) [0..<?n]"
  have ls: "\<exists>ps. loss fwd online target g batch ws = Inr (fmean ?L, ps)"
    using loss_by_index [OF qp qt len] by blast
  have R: "fmean ?L = Fin ((\<Sum>i<?n. fl_real (ws ! i) * (fl_real (qp ! i) - fl_real (qt ! i))\<^sup>2)
                          / real ?n)"
    if ne: "batch \<noteq> []" and fw: "list_all is_finite ws" and fp: "list_all is_finite qp"
      and ft: "list_all is_finite qt"
  proof -
    have lp: "length qp = ?n" using state_action_vals_length [OF qp] .
    have lt: "length qt = ?n" using exp_sa_vals_length [OF qt] .
    have el: "fmul (ws ! i) (fsquare (fsub (qp ! i) (qt ! i)))
                = Fin (fl_real (ws ! i) * (fl_real (qp ! i) - fl_real (qt ! i))\<^sup>2)"
      if i: "i < ?n" for i
    proof -
      have "is_finite (ws ! i)" "is_finite (qp ! i)" "is_finite (qt ! i)"
        using fw fp ft len lp lt i by (simp_all add: list_all_length)
      then obtain a b c where v: "ws ! i = Fin a" "qp ! i = Fin b" "qt ! i = Fin c"
        by (auto simp: is_finite_iff)
      show ?thesis by (simp add: v fsquare_def fsub_def power2_eq_square)
    qed
    define f where "f = (\<lambda>i. fl_real (ws ! i) * (fl_real (qp ! i) - fl_real (qt ! i))\<^sup>2)"
    have L: "?L = map Fin (map f [0..<?n])"
      by (rule nth_equalityI) (simp_all add: el f_def)
    have "map f [0..<?n] \<noteq> []"
      using ne by simp
    then have "fmean (map Fin (map f [0..<?n])) = Fin (sum_list (map f [0..<?n]) / real ?n)"
      using fmean_Fin [of "map f [0..<?n]"] by simp
    then have "fmean ?L = Fin (sum_list (map f [0..<?n]) / real ?n)"
      unfolding L .
    then show ?thesis
      unfolding f_def by (simp add: interv_sum_list_conv_sum_set_nat atLeast0LessThan)
  qed
  show ?thesis
  proof (intro conjI impI)
    show "\<exists>ps. loss fwd online target g batch ws = Inr (fmean ?L, ps)" by (rule ls)
  next
    assume "batch \<noteq> [] \<and> list_all is_finite ws \<and> list_all is_finite qp \<and> list_all is_finite qt"
    then have "fmean ?L = Fin ((\<Sum>i<?n. fl_real (ws ! i) * (fl_real (qp ! i) - fl_real (qt ! i))\<^sup>2)
                          / real ?n)"
      using R by blast
    then show "\<exists>ps. loss fwd online target g batch ws =
                  Inr (Fin ((\<Sum>i<?n. fl_real (ws ! i) * (fl_real (qp ! i) - fl_real (qt ! i))\<^sup>2)
                            / real ?n), ps)"
      using ls by simp
  qed
qed

theorem loss_is_weighted_mean_squared_error_witness:
  "state_action_vals (forward recording) demo_online demo_samples = Inr [Fin 2, Fin 1, Fin 1]
   \<and> exp_sa_vals (forward recording) demo_target (1 / 2) demo_samples
        = Inr [Fin (7 / 2), Fin 2, Fin (5 / 2)]
   \<and> length demo_weights = length demo_samples
   \<and> demo_samples \<noteq> []
   \<and> list_all is_finite demo_weights
   \<and> list_all is_finite [Fin 2, Fin 1, Fin 1]
   \<and> list_all is_finite [Fin (7 / 2), Fin 2, Fin (5 / 2)]
   \<and> (\<exists>ps. loss (forward recording) demo_online demo_target (1 / 2) demo_samples demo_weights
              = Inr (Fin ((1 * (2 - 7 / 2)\<^sup>2 + 1 / 2 * (1 - 2)\<^sup>2 + 2 * (1 - 5 / 2)\<^sup>2) / 3), ps))"
proof -
  have qp: "state_action_vals (forward recording) demo_online demo_samples
              = Inr [Fin 2, Fin 1, Fin 1]"
    by (simp add: eval_defs)
  have qt: "exp_sa_vals (forward recording) demo_target (1 / 2) demo_samples
              = Inr [Fin (7 / 2), Fin 2, Fin (5 / 2)]"
    by (simp add: eval_defs)
  have len: "length demo_weights = length demo_samples"
    by (simp add: demo_weights_def demo_samples_def)
  have fin: "demo_samples \<noteq> [] \<and> list_all is_finite demo_weights
               \<and> list_all is_finite [Fin 2, Fin 1, Fin 1]
               \<and> list_all is_finite [Fin (7 / 2), Fin 2, Fin (5 / 2)]"
    by (simp add: demo_weights_def demo_samples_def)
  have n: "length demo_samples = Suc (Suc (Suc 0))" by (simp add: demo_samples_def)
  have "\<exists>ps. loss (forward recording) demo_online demo_target (1 / 2) demo_samples demo_weights
              = Inr (Fin ((\<Sum>i<length demo_samples.
                             fl_real (demo_weights ! i)
                             * (fl_real ([Fin 2, Fin 1, Fin 1] ! i)
                                - fl_real ([Fin (7 / 2), Fin 2, Fin (5 / 2)] ! i))\<^sup>2)
                          / real (length demo_samples)), ps)"
    using loss_is_weighted_mean_squared_error [OF qp qt len] fin by blast
  then have "\<exists>ps. loss (forward recording) demo_online demo_target (1 / 2) demo_samples demo_weights
              = Inr (Fin ((1 * (2 - 7 / 2)\<^sup>2 + 1 / 2 * (1 - 2)\<^sup>2 + 2 * (1 - 5 / 2)\<^sup>2) / 3), ps)"
    unfolding n by (simp add: demo_weights_def)
  then show ?thesis using qp qt len fin by simp
qed

text \<open>
  C3. The priorities that \<^verbatim>\<open>loss\<close> returns, and that \<^verbatim>\<open>training_step\<close> hands to
  \<^verbatim>\<open>update_priorities\<close> together with the sampled indices, are the weighted
  per-sample losses plus \<open>10\<^sup>-\<^sup>5\<close>: \<open>weight\<^sub>i * (q_pred\<^sub>i - q_target\<^sub>i)\<^sup>2 + 10\<^sup>-\<^sup>5\<close>
  for every sample \<open>i\<close>.
\<close>

theorem priorities_written_back:
  assumes ts: "training_step C tr self (samples, indices, weights) = Inr (res, s')"
    and src: "source_step C (net self) (update_epsilon C (world self) (global_step tr))
                = ((e, r, d), w)"
    and qp: "state_action_vals (forward C) (net self) samples = Inr qp"
    and qt: "exp_sa_vals (forward C) (target_net self) (gamma self) samples = Inr qt"
    and len: "length weights = length samples"
  shows "(\<exists>l. loss (forward C) (net self) (target_net self) (gamma self) samples weights =
            Inr (l, map (\<lambda>i. fadd (fmul (weights ! i) (fsquare (fsub (qp ! i) (qt ! i))))
                               (Fin (1 / 100000))) [0..<length samples]))
       \<and> buffer s' =
           update_priorities C (buffer_append C (buffer self) e) indices
             (map (\<lambda>i. fadd (fmul (weights ! i) (fsquare (fsub (qp ! i) (qt ! i))))
                          (Fin (1 / 100000))) [0..<length samples])"
proof -
  let ?PS = "map (\<lambda>i. fadd (fmul (weights ! i) (fsquare (fsub (qp ! i) (qt ! i))))
                        (Fin (1 / 100000))) [0..<length samples]"
  have ls: "\<exists>l. loss (forward C) (net self) (target_net self) (gamma self) samples weights
              = Inr (l, ?PS)"
    using loss_by_index [OF qp qt len] by simp
  obtain l ps S where l2: "loss (forward C) (net self) (target_net self) (gamma self) samples weights
                             = Inr (l, ps)"
    and S: "S = (if d then finalize_episode else id)
                 (self\<lparr>world := w,
                       episode_reward := episode_reward self + r,
                       episode_steps := episode_steps self + 1,
                       buffer := update_priorities C (buffer_append C (buffer self) e) indices ps\<rparr>)"
    and s': "s' = (if sync_rate self dvd global_step tr then S\<lparr>target_net := net self\<rparr> else S)"
    using training_step_final_state [OF ts src] by blast
  have "ps = ?PS" using ls l2 by auto
  moreover have "buffer s' = update_priorities C (buffer_append C (buffer self) e) indices ps"
    by (cases d) (simp_all add: s' S)
  ultimately show ?thesis using ls by simp
qed

theorem priorities_written_back_witness:
  "training_step recording (demo_trainer 1) (demo_model False)
       (demo_samples, demo_indices, demo_weights)
     = Inr (make_output recording (demo_trainer 1) (Scalar (Fin (29 / 12))) demo_after,
            demo_after)
   \<and> source_step recording (net (demo_model False))
         (update_epsilon recording (world (demo_model False)) (global_step (demo_trainer 1)))
       = ((7, 3, False), (7, 3, False))
   \<and> state_action_vals (forward recording) (net (demo_model False)) demo_samples
       = Inr [Fin 2, Fin 1, Fin 1]
   \<and> exp_sa_vals (forward recording) (target_net (demo_model False)) (gamma (demo_model False))
         demo_samples
       = Inr [Fin (7 / 2), Fin 2, Fin (5 / 2)]
   \<and> length demo_weights = length demo_samples
   \<and> buffer demo_after
       = update_priorities recording (buffer_append recording (buffer (demo_model False)) 7)
           [4, 0, 9]
           [fadd (fmul (Fin 1) (fsquare (fsub (Fin 2) (Fin (7 / 2))))) (Fin (1 / 100000)),
            fadd (fmul (Fin (1 / 2)) (fsquare (fsub (Fin 1) (Fin 2)))) (Fin (1 / 100000)),
            fadd (fmul (Fin 2) (fsquare (fsub (Fin 1) (Fin (5 / 2))))) (Fin (1 / 100000))]"
proof -
  have ts: "training_step recording (demo_trainer 1) (demo_model False)
       (demo_samples, demo_indices, demo_weights)
     = Inr (make_output recording (demo_trainer 1) (Scalar (Fin (29 / 12))) demo_after,
            demo_after)"
    by (simp add: eval_defs)
  have src: "source_step recording (net (demo_model False))
         (update_epsilon recording (world (demo_model False)) (global_step (demo_trainer 1)))
       = ((7, 3, False), (7, 3, False))"
    by (simp add: eval_defs)
  have qp: "state_action_vals (forward recording) (net (demo_model False)) demo_samples
       = Inr [Fin 2, Fin 1, Fin 1]"
    by (simp add: eval_defs)
  have qt: "exp_sa_vals (forward recording) (target_net (demo_model False))
         (gamma (demo_model False)) demo_samples
       = Inr [Fin (7 / 2), Fin 2, Fin (5 / 2)]"
    by (simp add: eval_defs)
  have len: "length demo_weights = length demo_samples"
    by (simp add: demo_weights_def demo_samples_def)
  have n: "[0..<length demo_samples] = [0, Suc 0, Suc (Suc 0)]"
    by (simp add: demo_samples_def upt_rec)
  show ?thesis
    using ts src qp qt len priorities_written_back [OF ts src qp qt len]
    unfolding n by (simp add: demo_weights_def demo_indices_def)
qed

text \<open>
  C4. The claim (false as stated). With non-negative importance weights, every priority
  that \<^verbatim>\<open>loss\<close> computes and \<^verbatim>\<open>training_step\<close> hands to \<^verbatim>\<open>update_priorities\<close> would
  be strictly positive, at least \<open>10\<^sup>-\<^sup>5\<close>. An action value that is NaN refutes it: the
  weights below are non-negative, the first priority handed to the buffer is NaN, and NaN
  is neither positive nor at least \<open>10\<^sup>-\<^sup>5\<close>.
\<close>

theorem nan_priority_counterexample:
  "list_all (fle (Fin 0)) demo_weights
   \<and> length demo_weights = length demo_samples
   \<and> loss (forward recording) diverged_online demo_target (1 / 2) demo_samples demo_weights
       = Inr (NaN, [NaN, Fin (50001 / 100000), Fin (450001 / 100000)])
   \<and> training_step recording (demo_trainer 1)
         (fresh_model diverged_online demo_target (7, 3, False) 2)
         (demo_samples, demo_indices, demo_weights)
       = Inr (make_output recording (demo_trainer 1) (Scalar NaN)
                ((fresh_model diverged_online demo_target (7, 3, False) 2)
                   \<lparr>episode_reward := 3, episode_steps := 1,
                    buffer := [Append 7, UpdatePriorities [4, 0, 9]
                                 [NaN, Fin (50001 / 100000), Fin (450001 / 100000)]]\<rparr>),
              (fresh_model diverged_online demo_target (7, 3, False) 2)
                \<lparr>episode_reward := 3, episode_steps := 1,
                 buffer := [Append 7, UpdatePriorities [4, 0, 9]
                              [NaN, Fin (50001 / 100000), Fin (450001 / 100000)]]\<rparr>)
   \<and> \<not> flt (Fin 0) NaN
   \<and> \<not> fle (Fin (1 / 100000)) NaN"
  by (simp add: eval_defs)

text \<open>
  C4, amended. With non-negative importance weights (an infinite weight included), every
  priority that \<^verbatim>\<open>loss\<close> computes and \<^verbatim>\<open>training_step\<close> hands to
  \<^verbatim>\<open>update_priorities\<close> is strictly positive or NaN: the weighted squared error is
  non-negative, infinite or NaN, and the floor is added to it. The statement admits an
  infinite priority and a NaN, so it does not rest on finite arithmetic being exact, and it
  holds for every shape of the weights that \<^verbatim>\<open>loss\<close> accepts.
\<close>

theorem priorities_positive_or_nan:
  assumes ts: "training_step C tr self (samples, indices, weights) = Inr (res, s')"
    and src: "source_step C (net self) (update_epsilon C (world self) (global_step tr))
                = ((e, r, d), w)"
    and nonneg: "list_all (fle (Fin 0)) weights"
  shows "\<exists>l ps. loss (forward C) (net self) (target_net self) (gamma self) samples weights
                  = Inr (l, ps)
           \<and> buffer s' = update_priorities C (buffer_append C (buffer self) e) indices ps
           \<and> list_all (\<lambda>p. p = NaN \<or> flt (Fin 0) p) ps"
proof -
  obtain l ps S where ls: "loss (forward C) (net self) (target_net self) (gamma self) samples weights
                             = Inr (l, ps)"
    and S: "S = (if d then finalize_episode else id)
                 (self\<lparr>world := w,
                       episode_reward := episode_reward self + r,
                       episode_steps := episode_steps self + 1,
                       buffer := update_priorities C (buffer_append C (buffer self) e) indices ps\<rparr>)"
    and s': "s' = (if sync_rate self dvd global_step tr then S\<lparr>target_net := net self\<rparr> else S)"
    using training_step_final_state [OF ts src] by blast
  have "buffer s' = update_priorities C (buffer_append C (buffer self) e) indices ps"
    by (cases d) (simp_all add: s' S)
  then show ?thesis
    using ls loss_priorities_positive_or_nan [OF ls nonneg] by blast
qed

theorem priorities_positive_or_nan_witness:
  "training_step recording (demo_trainer 3) (demo_model False)
       (demo_samples, demo_indices, demo_weights)
     = Inr (make_output recording (demo_trainer 3) (Scalar (Fin (29 / 12))) demo_after,
            demo_after)
   \<and> source_step recording (net (demo_model False))
         (update_epsilon recording (world (demo_model False)) (global_step (demo_trainer 3)))
       = ((7, 3, False), (7, 3, False))
   \<and> list_all (fle (Fin 0)) demo_weights
   \<and> loss (forward recording) (net (demo_model False)) (target_net (demo_model False))
         (gamma (demo_model False)) demo_samples demo_weights
       = Inr (Fin (29 / 12), demo_priorities)
   \<and> buffer demo_after
       = update_priorities recording (buffer_append recording (buffer (demo_model False)) 7)
           demo_indices demo_priorities
   \<and> list_all (\<lambda>p. p = NaN \<or> flt (Fin 0) p) demo_priorities"
proof -
  have ts: "training_step recording (demo_trainer 3) (demo_model False)
       (demo_samples, demo_indices, demo_weights)
     = Inr (make_output recording (demo_trainer 3) (Scalar (Fin (29 / 12))) demo_after,
            demo_after)"
    by (simp add: eval_defs)
  have src: "source_step recording (net (demo_model False))
         (update_epsilon recording (world (demo_model False)) (global_step (demo_trainer 3)))
       = ((7, 3, False), (7, 3, False))"
    by (simp add: eval_defs)
  have nonneg: "list_all (fle (Fin 0)) demo_weights"
    by (simp add: demo_weights_def)
  have ls: "loss (forward recording) (net (demo_model False)) (target_net (demo_model False))
              (gamma (demo_model False)) demo_samples demo_weights
            = Inr (Fin (29 / 12), demo_priorities)"
    by (simp add: eval_defs)
  have "buffer demo_after
       = update_priorities recording (buffer_append recording (buffer (demo_model False)) 7)
           demo_indices demo_priorities
     \<and> list_all (\<lambda>p. p = NaN \<or> flt (Fin 0) p) demo_priorities"
    using priorities_positive_or_nan [OF ts src nonneg] ls by auto
  then show ?thesis using ts src nonneg ls by simp
qed

section \<open>The claims on the training step\<close>

text \<open>
  C5. When an invocation of \<^verbatim>\<open>training_step\<close> completes, the target network holds
  the parameters of the online network if the global step is a multiple of
  \<^verbatim>\<open>sync_rate\<close> (a wholesale copy, nothing is interpolated), and its own former
  parameters otherwise; the online network is not changed by the step.
\<close>

theorem target_sync_on_multiples:
  assumes ts: "training_step C tr self (samples, indices, weights) = Inr (res, s')"
  shows "target_net s' = (if sync_rate self dvd global_step tr then net self else target_net self)
         \<and> net s' = net self"
proof -
  obtain e r d w where src:
    "source_step C (net self) (update_epsilon C (world self) (global_step tr)) = ((e, r, d), w)"
    by (rule source_step_cases)
  show ?thesis
    using training_step_final_state [OF ts src] by (cases d) auto
qed

theorem target_sync_on_multiples_witness:
  "training_step recording (demo_trainer 4) (demo_model False)
       (demo_samples, demo_indices, demo_weights)
     = Inr (make_output recording (demo_trainer 4) (Scalar (Fin (29 / 12)))
              (demo_after\<lparr>target_net := demo_online\<rparr>),
            demo_after\<lparr>target_net := demo_online\<rparr>)
   \<and> sync_rate (demo_model False) dvd global_step (demo_trainer 4)
   \<and> target_net (demo_after\<lparr>target_net := demo_online\<rparr>) = net (demo_model False)
   \<and> training_step recording (demo_trainer 5) (demo_model False)
       (demo_samples, demo_indices, demo_weights)
     = Inr (make_output recording (demo_trainer 5) (Scalar (Fin (29 / 12))) demo_after,
            demo_after)
   \<and> \<not> sync_rate (demo_model False) dvd global_step (demo_trainer 5)
   \<and> target_net demo_after = target_net (demo_model False)
   \<and> net demo_after = net (demo_model False)"
proof -
  have ts: "training_step recording (demo_trainer 4) (demo_model False)
       (demo_samples, demo_indices, demo_weights)
     = Inr (make_output recording (demo_trainer 4) (Scalar (Fin (29 / 12)))
              (demo_after\<lparr>target_net := demo_online\<rparr>),
            demo_after\<lparr>target_net := demo_online\<rparr>)"
    by (simp add: eval_defs)
  have ts': "training_step recording (demo_trainer 5) (demo_model False)
       (demo_samples, demo_indices, demo_weights)
     = Inr (make_output recording (demo_trainer 5) (Scalar (Fin (29 / 12))) demo_after,
            demo_after)"
    by (simp add: eval_defs)
  have d: "sync_rate (demo_model False) dvd global_step (demo_trainer 4)"
    "\<not> sync_rate (demo_model False) dvd global_step (demo_trainer 5)"
    by (simp_all add: demo_model_def fresh_model_def demo_trainer_def)
  show ?thesis
    using ts ts' d target_sync_on_multiples [OF ts] target_sync_on_multiples [OF ts']
    by simp
qed

text \<open>
  C6. When the transition of the environment has its done flag set, a completed
  invocation of \<^verbatim>\<open>training_step\<close> finalizes the episode: the accumulated episode
  reward (the step's reward included) becomes the total reward and is appended to the
  reward history, the trailing average is recomputed from the history, the episode count
  grows by one, the step count of the episode (this step included) is recorded as the
  last completed episode's, and both accumulators of the current episode are reset to
  zero.
\<close>

theorem episode_finalized_when_done:
  assumes ts: "training_step C tr self (samples, indices, weights) = Inr (res, s')"
    and src: "source_step C (net self) (update_epsilon C (world self) (global_step tr))
                  = ((e, r, True), w)"
  shows "total_reward s' = episode_reward self + r
       \<and> reward_list s' = reward_list self @ [episode_reward self + r]
       \<and> avg_reward s' = sum_list (last_100 (reward_list s')) / 100
       \<and> episode_count s' = episode_count self + 1
       \<and> total_episode_steps s' = episode_steps self + 1
       \<and> episode_reward s' = 0
       \<and> episode_steps s' = 0"
  using training_step_final_state [OF ts src] by (auto simp: finalize_episode_fields)

theorem episode_finalized_when_done_witness:
  "training_step recording (demo_trainer 3) (demo_model True)
       (demo_samples, demo_indices, demo_weights)
     = Inr (make_output recording (demo_trainer 3) (Scalar (Fin (29 / 12)))
              (demo_after_episode 3),
            demo_after_episode 3)
   \<and> source_step recording (net (demo_model True))
         (update_epsilon recording (world (demo_model True)) (global_step (demo_trainer 3)))
       = ((7, 3, True), (7, 3, True))
   \<and> total_reward (demo_after_episode 3) = episode_reward (demo_model True) + 3
   \<and> reward_list (demo_after_episode 3) = reward_list (demo_model True) @ [episode_reward (demo_model True) + 3]
   \<and> avg_reward (demo_after_episode 3) = 3 / 100
   \<and> episode_count (demo_after_episode 3) = episode_count (demo_model True) + 1
   \<and> total_episode_steps (demo_after_episode 3) = episode_steps (demo_model True) + 1
   \<and> episode_reward (demo_after_episode 3) = 0
   \<and> episode_steps (demo_after_episode 3) = 0"
proof -
  have ts: "training_step recording (demo_trainer 3) (demo_model True)
       (demo_samples, demo_indices, demo_weights)
     = Inr (make_output recording (demo_trainer 3) (Scalar (Fin (29 / 12)))
              (demo_after_episode 3),
            demo_after_episode 3)"
    by (simp add: eval_defs)
  have src: "source_step recording (net (demo_model True))
         (update_epsilon recording (world (demo_model True)) (global_step (demo_trainer 3)))
       = ((7, 3, True), (7, 3, True))"
    by (simp add: eval_defs)
  show ?thesis
    using ts src episode_finalized_when_done [OF ts src] by (simp add: eval_defs)
qed

text \<open>
  C7. The claim (false as stated). The trailing average recomputed at the completion of
  an episode would be the sum of the most recent \<open>min 100 episode_count\<close>
  completed-episode rewards over the constant 100. The step does not read the episode
  count: on a model whose history already holds a hundred entries of \<open>-21\<close> and whose
  first episode completes with accumulated reward 5, the episode count becomes 1 and the
  most recent entry alone gives \<open>5 / 100\<close>, but the step stores \<open>-2074 / 100\<close>.
\<close>

theorem prefilled_history_counterexample:
  "training_step recording (demo_trainer 5) prefilled_model
       (demo_samples, demo_indices, demo_weights)
     = Inr (make_output recording (demo_trainer 5) (Scalar (Fin (29 / 12))) prefilled_after,
            prefilled_after)
   \<and> episode_count prefilled_after = 1
   \<and> avg_reward prefilled_after = - 2074 / 100
   \<and> sum_list (drop (length (reward_list prefilled_after)
                       - min 100 (nat (episode_count prefilled_after)))
                 (reward_list prefilled_after)) / 100 = 5 / 100"
  by (simp add: eval_defs sum_list_replicate)

text \<open>
  C7, amended. The trailing average recomputed at the completion of an episode is the sum
  of the last \<open>min 100 (len reward_list)\<close> entries of the reward history, the reward of
  the episode just completed being the last of them, divided by the constant 100 (also
  when the history has fewer than 100 entries). Where the history holds one entry for
  each completed episode, that number of entries is \<open>min 100 episode_count\<close>; in
  particular, after the first completed episode on an empty history, with accumulated
  reward 5, the trailing average is \<open>5 / 100\<close>.
\<close>

theorem trailing_average_over_history:
  assumes ts: "training_step C tr self (samples, indices, weights) = Inr (res, s')"
    and src: "source_step C (net self) (update_epsilon C (world self) (global_step tr))
                  = ((e, r, True), w)"
  shows "reward_list s' = reward_list self @ [episode_reward self + r]
       \<and> avg_reward s' =
           sum_list (drop (length (reward_list s') - min 100 (length (reward_list s')))
                       (reward_list s')) / 100
       \<and> episode_count s' = episode_count self + 1
       \<and> (int (length (reward_list self)) = episode_count self \<longrightarrow>
            avg_reward s' =
              sum_list (drop (length (reward_list s') - min 100 (nat (episode_count s')))
                          (reward_list s')) / 100)"
proof -
  have f: "reward_list s' = reward_list self @ [episode_reward self + r]"
    "avg_reward s' = sum_list (last_100 (reward_list s')) / 100"
    "episode_count s' = episode_count self + 1"
    using training_step_final_state [OF ts src] by (auto simp: finalize_episode_fields)
  have w: "last_100 (reward_list s')
          = drop (length (reward_list s') - min 100 (length (reward_list s'))) (reward_list s')"
    unfolding last_100_def by (cases "length (reward_list s') \<le> 100") (simp_all add: min_def)
  have a: "avg_reward s' =
           sum_list (drop (length (reward_list s') - min 100 (length (reward_list s')))
                       (reward_list s')) / 100"
    using f(2) w by simp
  have c: "avg_reward s' =
              sum_list (drop (length (reward_list s') - min 100 (nat (episode_count s')))
                          (reward_list s')) / 100"
    if inv: "int (length (reward_list self)) = episode_count self"
  proof -
    have "int (length (reward_list s')) = episode_count s'"
      using inv by (simp add: f(1,3))
    then have "nat (episode_count s') = length (reward_list s')" by linarith
    then show ?thesis using a by simp
  qed
  show ?thesis using f(1,3) a c by blast
qed

theorem trailing_average_over_history_witness:
  "training_step recording (demo_trainer 5) ((demo_model True)\<lparr>episode_reward := 2\<rparr>)
       (demo_samples, demo_indices, demo_weights)
     = Inr (make_output recording (demo_trainer 5) (Scalar (Fin (29 / 12)))
              (demo_after_episode 5),
            demo_after_episode 5)
   \<and> source_step recording (net ((demo_model True)\<lparr>episode_reward := 2\<rparr>))
         (update_epsilon recording (world ((demo_model True)\<lparr>episode_reward := 2\<rparr>)) (global_step (demo_trainer 5)))
       = ((7, 3, True), (7, 3, True))
   \<and> int (length (reward_list ((demo_model True)\<lparr>episode_reward := 2\<rparr>))) = episode_count ((demo_model True)\<lparr>episode_reward := 2\<rparr>)
   \<and> reward_list (demo_after_episode 5) = [5]
   \<and> avg_reward (demo_after_episode 5) = 5 / 100
   \<and> total_reward (demo_after_episode 5) = 5
   \<and> episode_count (demo_after_episode 5) = 1"
proof -
  have ts: "training_step recording (demo_trainer 5) ((demo_model True)\<lparr>episode_reward := 2\<rparr>)
       (demo_samples, demo_indices, demo_weights)
     = Inr (make_output recording (demo_trainer 5) (Scalar (Fin (29 / 12)))
              (demo_after_episode 5),
            demo_after_episode 5)"
    by (simp add: eval_defs)
  have src: "source_step recording (net ((demo_model True)\<lparr>episode_reward := 2\<rparr>))
         (update_epsilon recording (world ((demo_model True)\<lparr>episode_reward := 2\<rparr>)) (global_step (demo_trainer 5)))
       = ((7, 3, True), (7, 3, True))"
    by (simp add: eval_defs)
  have inv: "int (length (reward_list ((demo_model True)\<lparr>episode_reward := 2\<rparr>))) = episode_count ((demo_model True)\<lparr>episode_reward := 2\<rparr>)"
    by (simp add: eval_defs)
  show ?thesis
    using ts src inv trailing_average_over_history [OF ts src] by (simp add: eval_defs)
qed

text \<open>
  C8. When the transition of the environment has its done flag clear, a completed
  invocation of \<^verbatim>\<open>training_step\<close> leaves the total reward, the reward history, the
  trailing average, the episode count and the last completed episode's step count as
  they were; of the episode fields only the accumulators change: the episode reward
  grows by the step's reward and the episode step count by one.
\<close>

theorem episode_untouched_when_not_done:
  assumes ts: "training_step C tr self (samples, indices, weights) = Inr (res, s')"
    and src: "source_step C (net self) (update_epsilon C (world self) (global_step tr))
                  = ((e, r, False), w)"
  shows "total_reward s' = total_reward self
       \<and> reward_list s' = reward_list self
       \<and> avg_reward s' = avg_reward self
       \<and> episode_count s' = episode_count self
       \<and> total_episode_steps s' = total_episode_steps self
       \<and> episode_reward s' = episode_reward self + r
       \<and> episode_steps s' = episode_steps self + 1"
  using training_step_final_state [OF ts src] by auto

theorem episode_untouched_when_not_done_witness:
  "training_step recording (demo_trainer 7) (demo_model False)
       (demo_samples, demo_indices, demo_weights)
     = Inr (make_output recording (demo_trainer 7) (Scalar (Fin (29 / 12))) demo_after,
            demo_after)
   \<and> source_step recording (net (demo_model False))
         (update_epsilon recording (world (demo_model False)) (global_step (demo_trainer 7)))
       = ((7, 3, False), (7, 3, False))
   \<and> total_reward demo_after = total_reward (demo_model False)
   \<and> reward_list demo_after = reward_list (demo_model False)
   \<and> avg_reward demo_after = avg_reward (demo_model False)
   \<and> episode_count demo_after = episode_count (demo_model False)
   \<and> total_episode_steps demo_after = total_episode_steps (demo_model False)
   \<and> episode_reward demo_after = episode_reward (demo_model False) + 3
   \<and> episode_steps demo_after = episode_steps (demo_model False) + 1"
proof -
  have ts: "training_step recording (demo_trainer 7) (demo_model False)
       (demo_samples, demo_indices, demo_weights)
     = Inr (make_output recording (demo_trainer 7) (Scalar (Fin (29 / 12))) demo_after,
            demo_after)"
    by (simp add: eval_defs)
  have src: "source_step recording (net (demo_model False))
         (update_epsilon recording (world (demo_model False)) (global_step (demo_trainer 7)))
       = ((7, 3, False), (7, 3, False))"
    by (simp add: eval_defs)
  show ?thesis
    using ts src episode_untouched_when_not_done [OF ts src] by (simp add: eval_defs)
qed

text \<open>
  C9. The claim (false as stated). Non-finite per-sample loss values would never reach
  the buffer as priorities, \<^verbatim>\<open>training_step\<close> clamping or skipping the update. The
  step has no such check: with an online action value that is NaN and a target action
  value that is infinite, the call of \<^verbatim>\<open>update_priorities\<close> recorded by the buffer
  carries a NaN and an infinite priority.
\<close>

theorem non_finite_priorities_counterexample:
  "training_step recording (demo_trainer 1) diverged_model
       (demo_samples, demo_indices, demo_weights)
     = Inr (make_output recording (demo_trainer 1) (Scalar NaN)
              (diverged_model
                 \<lparr>episode_reward := 3, episode_steps := 1,
                  buffer := [Append 7, UpdatePriorities [4, 0, 9]
                               [NaN, Fin (50001 / 100000), PInf]]\<rparr>),
            diverged_model
              \<lparr>episode_reward := 3, episode_steps := 1,
               buffer := [Append 7, UpdatePriorities [4, 0, 9]
                            [NaN, Fin (50001 / 100000), PInf]]\<rparr>)
   \<and> \<not> is_finite NaN
   \<and> \<not> is_finite PInf"
  by (simp add: eval_defs)

text \<open>
  C9, amended. \<^verbatim>\<open>training_step\<close> hands the priorities that \<^verbatim>\<open>loss\<close> returns to
  \<^verbatim>\<open>update_priorities\<close> as they are, with the sampled indices and without any test of
  their values, whether they are finite or not; the step completes (for a non-zero
  \<^verbatim>\<open>sync_rate\<close>) and returns the loss that \<^verbatim>\<open>loss\<close> computed.
\<close>

theorem priorities_passed_unchecked:
  assumes ls: "loss (forward C) (net self) (target_net self) (gamma self) samples weights
                 = Inr (l, ps)"
    and src: "source_step C (net self) (update_epsilon C (world self) (global_step tr))
                = ((e, r, d), w)"
    and k: "sync_rate self \<noteq> 0"
  shows "\<exists>res s'. training_step C tr self (samples, indices, weights) = Inr (res, s')
           \<and> buffer s' = update_priorities C (buffer_append C (buffer self) e) indices ps
           \<and> out_loss res = (if use_dp tr \<or> use_ddp2 tr then Unsqueezed l else Scalar l)"
proof -
  obtain res s' where ts: "training_step C tr self (samples, indices, weights) = Inr (res, s')"
    using training_step_returns [OF ls k] by blast
  obtain l' ps' where l2: "loss (forward C) (net self) (target_net self) (gamma self) samples weights
                             = Inr (l', ps')"
    and sy: "sync_target tr
             ((if d then finalize_episode else id)
                (self\<lparr>world := w,
                      episode_reward := episode_reward self + r,
                      episode_steps := episode_steps self + 1,
                      buffer := update_priorities C (buffer_append C (buffer self) e) indices ps'\<rparr>))
             = Inr s'"
    and res: "res = make_output C tr (if use_dp tr \<or> use_ddp2 tr then Unsqueezed l' else Scalar l') s'"
    using training_step_state [OF ts src] by blast
  have eq: "l' = l" "ps' = ps" using ls l2 by simp_all
  have "buffer s' = update_priorities C (buffer_append C (buffer self) e) indices ps"
    using sy unfolding eq by (cases d) (auto simp: sync_target_Inr)
  moreover have "out_loss res = (if use_dp tr \<or> use_ddp2 tr then Unsqueezed l else Scalar l)"
    by (simp add: res eq make_output_def)
  ultimately show ?thesis using ts by blast
qed

theorem priorities_passed_unchecked_witness:
  "loss (forward recording) (net diverged_model) (target_net diverged_model)
       (gamma diverged_model) demo_samples demo_weights
     = Inr (NaN, [NaN, Fin (50001 / 100000), PInf])
   \<and> source_step recording (net diverged_model)
         (update_epsilon recording (world diverged_model) (global_step (demo_trainer 1)))
       = ((7, 3, False), (7, 3, False))
   \<and> sync_rate diverged_model \<noteq> 0
   \<and> (\<exists>res s'. training_step recording (demo_trainer 1) diverged_model
                   (demo_samples, demo_indices, demo_weights) = Inr (res, s')
           \<and> buffer s' = [Append 7, UpdatePriorities demo_indices [NaN, Fin (50001 / 100000), PInf]]
           \<and> out_loss res = Scalar NaN)"
proof -
  have ls: "loss (forward recording) (net diverged_model) (target_net diverged_model)
       (gamma diverged_model) demo_samples demo_weights
     = Inr (NaN, [NaN, Fin (50001 / 100000), PInf])"
    by (simp add: eval_defs)
  have src: "source_step recording (net diverged_model)
         (update_epsilon recording (world diverged_model) (global_step (demo_trainer 1)))
       = ((7, 3, False), (7, 3, False))"
    by (simp add: eval_defs)
  have k: "sync_rate diverged_model \<noteq> 0"
    by (simp add: eval_defs)
  have "\<exists>res s'. training_step recording (demo_trainer 1) diverged_model
                   (demo_samples, demo_indices, demo_weights) = Inr (res, s')
           \<and> buffer s' = [Append 7, UpdatePriorities demo_indices [NaN, Fin (50001 / 100000), PInf]]
           \<and> out_loss res = Scalar NaN"
    using priorities_passed_unchecked [OF ls src k, of demo_indices]
    by (simp add: recording_def diverged_model_def fresh_model_def demo_trainer_def)
  then show ?thesis using ls src k by simp
qed

text \<open>
  C10. On the invocation of \<^verbatim>\<open>training_step\<close> with global step 0, the first training
  step, the test \<^verbatim>\<open>global_step % sync_rate == 0\<close> succeeds for every positive
  \<^verbatim>\<open>sync_rate\<close>: the step completes (when the loss can be computed) and the target
  network is overwritten with the parameters of the online network.
\<close>

theorem first_step_syncs_target:
  assumes g: "global_step tr = 0" and k: "0 < sync_rate self"
    and ls: "loss (forward C) (net self) (target_net self) (gamma self) samples weights
               = Inr (l, ps)"
  shows "\<exists>res s'. training_step C tr self (samples, indices, weights) = Inr (res, s')
           \<and> target_net s' = net self"
proof -
  from k have "sync_rate self \<noteq> 0" by simp
  from training_step_returns [OF ls this]
  obtain res s' where ts: "training_step C tr self (samples, indices, weights) = Inr (res, s')"
    by blast
  obtain e r d w where src:
    "source_step C (net self) (update_epsilon C (world self) (global_step tr)) = ((e, r, d), w)"
    by (rule source_step_cases)
  have "target_net s' = net self"
    using training_step_final_state [OF ts src] g by (cases d) auto
  with ts show ?thesis by blast
qed

theorem first_step_syncs_target_witness:
  "global_step (demo_trainer 0) = 0
   \<and> 0 < sync_rate (demo_model False)
   \<and> loss (forward recording) (net (demo_model False)) (target_net (demo_model False))
         (gamma (demo_model False)) demo_samples demo_weights
       = Inr (Fin (29 / 12), demo_priorities)
   \<and> (\<exists>res s'. training_step recording (demo_trainer 0) (demo_model False)
                   (demo_samples, demo_indices, demo_weights) = Inr (res, s')
           \<and> target_net s' = demo_online)"
proof -
  have g: "global_step (demo_trainer 0) = 0" by (simp add: demo_trainer_def)
  have k: "0 < sync_rate (demo_model False)" by (simp add: demo_model_def fresh_model_def)
  have ls: "loss (forward recording) (net (demo_model False)) (target_net (demo_model False))
         (gamma (demo_model False)) demo_samples demo_weights
       = Inr (Fin (29 / 12), demo_priorities)"
    by (simp add: eval_defs)
  have "\<exists>res s'. training_step recording (demo_trainer 0) (demo_model False)
                   (demo_samples, demo_indices, demo_weights) = Inr (res, s')
           \<and> target_net s' = demo_online"
    using first_step_syncs_target [OF g k ls, of demo_indices]
    by (simp add: demo_model_def fresh_model_def)
  then show ?thesis using g k ls by simp
qed

end
